theory Spec2Isabelle
  imports Complex_Main "HOL-Library.Log_Nat"
begin

section \<open>Numbers\<close>

text \<open>
  The bot computes with Python floats and ints. A float is modelled by the rational
  number it denotes. \<open>int(x)\<close> truncates toward zero; \<open>round(x, ndigits)\<close> rounds the
  exact value of \<open>x\<close> to the nearest multiple of \<open>10 ^ (- ndigits)\<close>, a tie going to the
  even neighbour, and \<open>py_round\<close> gives that decimal.

  \<open>fl\<close> rounds a rational to the nearest binary64 float, a tie going to the even
  significand: \<open>ilog2\<close> is the binary exponent, and the significand has 53 bits.
  Overflow and subnormal numbers are not modelled. Position sizing, whose result is
  rounded to 5 decimals and therefore depends on the last bits of the quotient, rounds
  every operation with \<open>fl\<close>; the exit prices of \<open>buy\<close> and \<open>sell\<close> are computed on
  the exact products.
\<close>

definition py_int :: "rat \<Rightarrow> int" where
  "py_int x = (if 0 \<le> x then \<lfloor>x\<rfloor> else \<lceil>x\<rceil>)"

definition round_half_even :: "rat \<Rightarrow> int" where
  "round_half_even x =
     (let f = \<lfloor>x\<rfloor>; r = x - of_int f
      in if r < 1 / 2 then f
         else if 1 / 2 < r then f + 1
         else if even f then f else f + 1)"

definition py_round :: "rat \<Rightarrow> int \<Rightarrow> rat" where
  "py_round x ndigits =
     (if 0 \<le> ndigits
      then of_int (round_half_even (x * 10 ^ nat ndigits)) / 10 ^ nat ndigits
      else of_int (round_half_even (x / 10 ^ nat (- ndigits))) * 10 ^ nat (- ndigits))"

definition ilog2 :: "rat \<Rightarrow> int" where
  "ilog2 x =
     (if 1 \<le> x then bitlen \<lfloor>x\<rfloor> - 1
      else - bitlen (\<lceil>1 / x\<rceil> - 1))"

definition fl :: "rat \<Rightarrow> rat" where
  "fl x =
     (if x = 0 then 0
      else (let ulp = 2 powi (ilog2 \<bar>x\<bar> - 52)
            in of_int (round_half_even (x / ulp)) * ulp))"

section \<open>Errors\<close>

text \<open>The exceptions the modelled code can raise, as values.\<close>

datatype error =
    ValueError string
  | KeyError string
  | IndexError
  | ZeroDivisionError
  | UnboundLocalError string

definition py_div :: "rat \<Rightarrow> rat \<Rightarrow> error + rat" where
  "py_div a b = (if b = 0 then Inl ZeroDivisionError else Inr (fl (a / b)))"

section \<open>Risk parameters\<close>

text \<open>
  The module-level constants of \<open>simple_hl_bot.py\<close>, gathered in a record so that the
  checks on \<open>STOP_LOSS_PERCENT\<close> can be exercised; \<open>bot_config\<close> holds the values the
  source assigns.
\<close>

record config =
  MAX_LEVERAGE :: rat
  RISK_PER_TRADE_PERCENT :: rat
  RISK_REWARD_RATIO :: rat
  STOP_LOSS_PERCENT :: rat
  DON_MAX_PERIOD :: nat

definition TAKE_PROFIT_PERCENT :: "config \<Rightarrow> rat" where
  "TAKE_PROFIT_PERCENT c = STOP_LOSS_PERCENT c * RISK_REWARD_RATIO c"

definition bot_config :: config where
  "bot_config =
     \<lparr> MAX_LEVERAGE = 50, RISK_PER_TRADE_PERCENT = 2, RISK_REWARD_RATIO = 2,
       STOP_LOSS_PERCENT = 1, DON_MAX_PERIOD = 12 \<rparr>"

section \<open>Position sizing\<close>

text \<open>
  \<open>calculate_position_size\<close> is a \<open>try\<close> block with one handler. The body is modelled
  by \<open>calculate_position_size_try\<close>: it returns the size, or the exception raised
  together with the binding of the local \<open>min_position_size\<close> at that moment
  (\<open>None\<close>: not yet assigned). The handler returns that local; reading it unbound raises
  \<open>UnboundLocalError\<close>. The balance and the price are floats; each product and quotient
  of lines 45 and 61 is rounded with \<open>fl\<close>, in the order Python evaluates them, and the
  value returned is the float nearest to the decimal that \<open>round\<close> computes.
\<close>

definition calculate_position_size_try ::
  "config \<Rightarrow> rat \<Rightarrow> rat \<Rightarrow> (error \<times> rat option) + rat" where
  "calculate_position_size_try c balance current_price =
     (let risk_amount = fl (balance * fl (RISK_PER_TRADE_PERCENT c / 100))
      in if STOP_LOSS_PERCENT c = 0
         then Inl (ValueError ''STOP_LOSS_PERCENT cannot be 0'', None)
         else if current_price = 0
         then Inl (ValueError ''Current price cannot be 0'', None)
         else (case py_div risk_amount
                      (fl (fl (current_price * STOP_LOSS_PERCENT c) / 100)) of
                 Inl e \<Rightarrow> Inl (e, None)
               | Inr position_size \<Rightarrow>
                   (let min_position_size = fl (1 / 1000);
                        position_size =
                          (if position_size < min_position_size
                           then min_position_size else position_size)
                    in Inr (fl (py_round position_size 5)))))"

definition calculate_position_size :: "config \<Rightarrow> rat \<Rightarrow> rat \<Rightarrow> error + rat" where
  "calculate_position_size c balance current_price =
     (case calculate_position_size_try c balance current_price of
        Inr position_size \<Rightarrow> Inr position_size
      | Inl (e, min_position_size) \<Rightarrow>
          (case min_position_size of
             None \<Rightarrow> Inl (UnboundLocalError ''min_position_size'')
           | Some m \<Rightarrow> Inr m))"

section \<open>The price window\<close>

text \<open>
  \<open>last_prices\<close> is a \<open>collections.deque\<close> with \<open>maxlen = DON_MAX_PERIOD\<close>, oldest
  price first. \<open>append\<close> adds at the right end and, when the length then exceeds
  \<open>maxlen\<close>, drops the leftmost element; \<open>clear\<close> empties it.
\<close>

definition deque_append :: "nat \<Rightarrow> 'a list \<Rightarrow> 'a \<Rightarrow> 'a list" where
  "deque_append maxlen xs x =
     (let ys = xs @ [x] in if maxlen < length ys then tl ys else ys)"

definition deque_clear :: "'a list \<Rightarrow> 'a list" where
  "deque_clear xs = []"

datatype 'a deque_op = Append 'a | Clear

fun deque_apply :: "nat \<Rightarrow> 'a list \<Rightarrow> 'a deque_op \<Rightarrow> 'a list" where
  "deque_apply maxlen xs (Append x) = deque_append maxlen xs x"
| "deque_apply maxlen xs Clear = deque_clear xs"

definition deque_run :: "nat \<Rightarrow> 'a deque_op list \<Rightarrow> 'a list \<Rightarrow> 'a list" where
  "deque_run maxlen ops xs = foldl (deque_apply maxlen) xs ops"

text \<open>Python's \<open>min\<close> and \<open>max\<close> of a sequence: the empty sequence raises.\<close>

fun py_min :: "rat list \<Rightarrow> error + rat" where
  "py_min [] = Inl (ValueError ''min() arg is an empty sequence'')"
| "py_min (x # xs) = Inr (fold (\<lambda>item best. if item < best then item else best) xs x)"

fun py_max :: "rat list \<Rightarrow> error + rat" where
  "py_max [] = Inl (ValueError ''max() arg is an empty sequence'')"
| "py_max (x # xs) = Inr (fold (\<lambda>item best. if best < item then item else best) xs x)"

section \<open>The exchange client\<close>

text \<open>
  The exchange is an external collaborator. What the bot sends is a \<open>request\<close>: a market
  order (\<open>client.market_open(name, is_buy, sz)\<close>) or a trigger order
  (\<open>client.order(name, is_buy, sz, limit_px, reduce_only, order_type)\<close>, the trigger
  given by \<open>triggerPx\<close>, \<open>isMarket\<close> and \<open>tpsl\<close>). The requests sent so far are kept
  in a list, oldest first, and the exchange's answer may depend on them.

  An answer is the dictionary the client returns, reduced to what the bot reads: the
  \<open>status\<close> string and the list \<open>response.data.statuses\<close> (\<open>None\<close> when one of the
  keys \<open>response\<close>, \<open>data\<close>, \<open>statuses\<close> is missing). An entry of that list is
  \<open>{'filled': {'avgPx': p}}\<close> (with \<open>p\<close> already converted by \<open>float\<close>),
  \<open>{'error': msg}\<close>, or an entry with neither key.
\<close>

datatype tpsl = SL | TP

datatype request =
    Market_open string bool rat
  | Order string bool rat int bool int bool tpsl

datatype order_status = Filled rat | Resting | Error string

record order_result =
  status :: string
  statuses :: "order_status list option"

record client =
  universe :: "(string \<times> int) list"
  reply :: "request list \<Rightarrow> request \<Rightarrow> order_result"

definition get_market_info :: "client \<Rightarrow> string \<Rightarrow> error + (string \<times> int)" where
  "get_market_info cl asset =
     (case find (\<lambda>m. fst m = asset) (universe cl) of
        None \<Rightarrow> Inl (ValueError ''Asset not found'')
      | Some asset_info \<Rightarrow> Inr asset_info)"

definition place_stop_loss ::
  "client \<Rightarrow> string \<Rightarrow> rat \<Rightarrow> int \<Rightarrow> bool \<Rightarrow> request list
     \<Rightarrow> (error + order_result) \<times> request list" where
  "place_stop_loss cl asset position_size stop_price is_buy sent =
     (let req = Order asset is_buy position_size stop_price True stop_price True SL;
          order = reply cl sent req;
          sent = sent @ [req]
      in if status order \<noteq> ''ok''
         then (Inl (ValueError ''Failed to place stop loss order''), sent)
         else (case statuses order of
                 None \<Rightarrow> (Inl (KeyError ''response''), sent)
               | Some [] \<Rightarrow> (Inl IndexError, sent)
               | Some (Error msg # _) \<Rightarrow> (Inl (ValueError (''Stop loss order error: '' @ msg)), sent)
               | Some (_ # _) \<Rightarrow> (Inr order, sent)))"

definition place_take_profit ::
  "client \<Rightarrow> string \<Rightarrow> rat \<Rightarrow> int \<Rightarrow> bool \<Rightarrow> request list
     \<Rightarrow> (error + order_result) \<times> request list" where
  "place_take_profit cl asset position_size take_profit_price is_buy sent =
     (let req = Order asset is_buy position_size take_profit_price True take_profit_price True TP;
          order = reply cl sent req;
          sent = sent @ [req]
      in if status order \<noteq> ''ok''
         then (Inl (ValueError ''Failed to place take profit order''), sent)
         else (case statuses order of
                 None \<Rightarrow> (Inl (KeyError ''response''), sent)
               | Some [] \<Rightarrow> (Inl IndexError, sent)
               | Some (Error msg # _) \<Rightarrow> (Inl (ValueError (''Take profit order error: '' @ msg)), sent)
               | Some (_ # _) \<Rightarrow> (Inr order, sent)))"

text \<open>
  \<open>buy\<close> and \<open>sell\<close> are each one \<open>try\<close> block whose handler prints the exception and
  returns \<open>False\<close>. \<open>buy_try\<close> and \<open>sell_try\<close> are the bodies: the first exception
  raised ends the body, and the requests sent before it stay sent.
\<close>

definition buy_try ::
  "config \<Rightarrow> client \<Rightarrow> string \<Rightarrow> rat \<Rightarrow> request list \<Rightarrow> (error + bool) \<times> request list" where
  "buy_try c cl asset position_size sent =
     (case get_market_info cl asset of
        Inl e \<Rightarrow> (Inl e, sent)
      | Inr market_info \<Rightarrow>
          (let sz_decimals = snd market_info
           in if position_size \<le> 0
              then (Inl (ValueError ''Position size must be positive''), sent)
              else
                (let position_size = py_round position_size sz_decimals;
                     req = Market_open asset True position_size;
                     order = reply cl sent req;
                     sent = sent @ [req]
                 in if status order \<noteq> ''ok''
                    then (Inl (ValueError ''Market order failed''), sent)
                    else (case statuses order of
                       None \<Rightarrow> (Inl (ValueError ''Unexpected order response format''), sent)
                     | Some [] \<Rightarrow> (Inl IndexError, sent)
                     | Some (Filled avgPx # _) \<Rightarrow>
                         (let entry_price = py_int avgPx;
                              stop_loss_price =
                                py_int (of_int entry_price * (1 - STOP_LOSS_PERCENT c / 100));
                              take_profit_price =
                                py_int (of_int entry_price * (1 + TAKE_PROFIT_PERCENT c / 100))
                          in (case place_stop_loss cl asset position_size stop_loss_price False sent of
                                (Inl e, sent) \<Rightarrow> (Inl e, sent)
                              | (Inr stop_loss_order, sent) \<Rightarrow>
                                  (case place_take_profit cl asset position_size
                                          take_profit_price False sent of
                                     (Inl e, sent) \<Rightarrow> (Inl e, sent)
                                   | (Inr take_profit_order, sent) \<Rightarrow> (Inr True, sent))))
                     | Some (_ # _) \<Rightarrow> (Inl (KeyError ''filled''), sent)))))"

definition buy :: "config \<Rightarrow> client \<Rightarrow> string \<Rightarrow> rat \<Rightarrow> request list \<Rightarrow> bool \<times> request list" where
  "buy c cl asset position_size sent =
     (case buy_try c cl asset position_size sent of
        (Inr r, sent) \<Rightarrow> (r, sent)
      | (Inl e, sent) \<Rightarrow> (False, sent))"

definition sell_try ::
  "config \<Rightarrow> client \<Rightarrow> string \<Rightarrow> rat \<Rightarrow> request list \<Rightarrow> (error + bool) \<times> request list" where
  "sell_try c cl asset position_size sent =
     (case get_market_info cl asset of
        Inl e \<Rightarrow> (Inl e, sent)
      | Inr market_info \<Rightarrow>
          (let sz_decimals = snd market_info
           in if position_size \<le> 0
              then (Inl (ValueError ''Position size must be positive''), sent)
              else
                (let position_size = py_round position_size sz_decimals;
                     req = Market_open asset False position_size;
                     order = reply cl sent req;
                     sent = sent @ [req]
                 in if status order \<noteq> ''ok''
                    then (Inl (ValueError ''Market order failed''), sent)
                    else (case statuses order of
                       None \<Rightarrow> (Inl (ValueError ''Unexpected order response format''), sent)
                     | Some [] \<Rightarrow> (Inl IndexError, sent)
                     | Some (Filled avgPx # _) \<Rightarrow>
                         (let entry_price = py_int avgPx;
                              stop_loss_price =
                                py_int (of_int entry_price * (1 + STOP_LOSS_PERCENT c / 100))
                          in (case place_stop_loss cl asset position_size stop_loss_price True sent of
                                (Inl e, sent) \<Rightarrow> (Inl e, sent)
                              | (Inr stop_loss_order, sent) \<Rightarrow>
                                  (let take_profit_price =
                                     py_int (of_int entry_price * (1 - TAKE_PROFIT_PERCENT c / 100))
                                   in (case place_take_profit cl asset position_size
                                              take_profit_price True sent of
                                         (Inl e, sent) \<Rightarrow> (Inl e, sent)
                                       | (Inr take_profit_order, sent) \<Rightarrow> (Inr True, sent)))))
                     | Some (_ # _) \<Rightarrow> (Inl (KeyError ''filled''), sent)))))"

definition sell :: "config \<Rightarrow> client \<Rightarrow> string \<Rightarrow> rat \<Rightarrow> request list \<Rightarrow> bool \<times> request list" where
  "sell c cl asset position_size sent =
     (case sell_try c cl asset position_size sent of
        (Inr r, sent) \<Rightarrow> (r, sent)
      | (Inl e, sent) \<Rightarrow> (False, sent))"

section \<open>One polling cycle\<close>

text \<open>
  What \<open>run_trading_strategy\<close> reads from the exchange in one cycle: the account value
  and the positions of \<open>info.user_state\<close>, and the mid prices of \<open>info.all_mids\<close>
  (already converted by \<open>float\<close>).
\<close>

record position =
  coin :: string
  szi :: rat
  entryPx :: rat

record market =
  accountValue :: rat
  assetPositions :: "position list"
  all_mids :: "string \<Rightarrow> rat option"

text \<open>
  The breakout rule of lines 294 to 305: the comparison of the current price with the
  maximum and the minimum of the window.
\<close>

datatype signal = NONE | LONG | SHORT

definition breakout :: "rat \<Rightarrow> rat \<Rightarrow> rat \<Rightarrow> signal" where
  "breakout min_price max_price current_price =
     (if max_price < current_price then LONG
      else if current_price < min_price then SHORT
      else NONE)"

text \<open>
  The state that outlives a cycle: the price window and the requests sent to the
  exchange. The Python function returns nothing; the model returns which branch ran,
  and for a trade the value of \<open>buy\<close> or \<open>sell\<close> that the source discards. An
  exception leaves the function with the state as it is at that moment.
  \<open>calculate_position_size\<close> returns a number or raises, never \<open>None\<close>: the test
  of line 290 is always false and has no branch in the model. The \<open>sleep\<close> calls and
  the printing are left out.
\<close>

record bot_state =
  last_prices :: "rat list"
  orders_sent :: "request list"

datatype outcome = Position_open | Collecting | No_signal | Traded signal bool

definition run_trading_strategy ::
  "config \<Rightarrow> client \<Rightarrow> market \<Rightarrow> string \<Rightarrow> bot_state \<Rightarrow> (error + outcome) \<times> bot_state" where
  "run_trading_strategy c cl mk asset st =
     (let balance = accountValue mk;
          position = find (\<lambda>p. coin p = asset) (assetPositions mk)
      in case all_mids mk asset of
           None \<Rightarrow> (Inl (KeyError asset), st)
         | Some current_price \<Rightarrow>
             (if (case position of None \<Rightarrow> False | Some p \<Rightarrow> szi p \<noteq> 0)
              then (case position of
                      None \<Rightarrow> (Inr Position_open, st)
                    | Some p \<Rightarrow>
                        (let unrealized_pnl = szi p * (current_price - entryPx p)
                         in case py_div unrealized_pnl balance of
                              Inl e \<Rightarrow> (Inl e, st)
                            | Inr pnl \<Rightarrow> (Inr Position_open, st)))
              else if length (last_prices st) < DON_MAX_PERIOD c
              then (Inr Collecting,
                    st\<lparr>last_prices :=
                         deque_append (DON_MAX_PERIOD c) (last_prices st) current_price\<rparr>)
              else
                (case py_min (last_prices st) of
                   Inl e \<Rightarrow> (Inl e, st)
                 | Inr min_price \<Rightarrow>
                 (case py_max (last_prices st) of
                   Inl e \<Rightarrow> (Inl e, st)
                 | Inr max_price \<Rightarrow>
                 (case calculate_position_size c balance current_price of
                   Inl e \<Rightarrow> (Inl e, st)
                 | Inr position_size \<Rightarrow>
                 (case breakout min_price max_price current_price of
                   LONG \<Rightarrow>
                     (case buy c cl asset position_size (orders_sent st) of
                        (r, sent') \<Rightarrow>
                          (Inr (Traded LONG r),
                           \<lparr>last_prices =
                              deque_append (DON_MAX_PERIOD c)
                                (deque_clear (last_prices st)) current_price,
                            orders_sent = sent'\<rparr>))
                 | SHORT \<Rightarrow>
                     (case sell c cl asset position_size (orders_sent st) of
                        (r, sent') \<Rightarrow>
                          (Inr (Traded SHORT r),
                           \<lparr>last_prices =
                              deque_append (DON_MAX_PERIOD c)
                                (deque_clear (last_prices st)) current_price,
                            orders_sent = sent'\<rparr>))
                 | NONE \<Rightarrow>
                     (Inr No_signal,
                      st\<lparr>last_prices :=
                           deque_append (DON_MAX_PERIOD c) (last_prices st)
                             current_price\<rparr>)))))))"

section \<open>The decision of a cycle as a function of the window\<close>

text \<open>
  \<open>signal\<close> is not a function of the source, and \<open>run_trading_strategy\<close> does not call
  it. It is the decision of lines 273 to 305 read as a function of the window and the
  current price alone: the test on the number of prices collected, the minimum and the
  maximum, and the comparison. The call of \<open>calculate_position_size\<close> at line 289,
  which runs between the minimum and maximum and the comparison and may raise, is not
  part of it. It is used to say which window a trade started from; the lemma
  \<open>cycle_follows_signal\<close> below relates it to the cycle.
\<close>

definition signal :: "config \<Rightarrow> rat list \<Rightarrow> rat \<Rightarrow> error + signal" where
  "signal c window current_price =
     (if length window < DON_MAX_PERIOD c then Inr NONE
      else (case py_min window of
              Inl e \<Rightarrow> Inl e
            | Inr min_price \<Rightarrow>
                (case py_max window of
                   Inl e \<Rightarrow> Inl e
                 | Inr max_price \<Rightarrow> Inr (breakout min_price max_price current_price))))"

section \<open>Reading the exchange's answers\<close>

text \<open>
  Two readings of an answer, used to state the properties below. \<open>accepted\<close> is the
  condition under which \<open>place_stop_loss\<close> and \<open>place_take_profit\<close> return instead of
  raising; \<open>entry_fill\<close> is the average fill price that \<open>buy\<close> and \<open>sell\<close> extract
  from the answer to the market order, when they get that far.
\<close>

definition accepted :: "order_result \<Rightarrow> bool" where
  "accepted order =
     (status order = ''ok'' \<and>
      (case statuses order of
         None \<Rightarrow> False
       | Some [] \<Rightarrow> False
       | Some (Error msg # _) \<Rightarrow> False
       | Some (_ # _) \<Rightarrow> True))"

definition entry_fill :: "order_result \<Rightarrow> rat option" where
  "entry_fill order =
     (if status order \<noteq> ''ok'' then None
      else (case statuses order of
              Some (Filled avgPx # _) \<Rightarrow> Some avgPx
            | _ \<Rightarrow> None))"

section \<open>Example inputs\<close>

text \<open>
  Concrete answers, an exchange that answers by the kind of order alone, a market
  without open positions and a full window with minimum 90 and maximum 110.
\<close>

definition filled_reply :: "rat \<Rightarrow> order_result" where
  "filled_reply avgPx = \<lparr> status = ''ok'', statuses = Some [Filled avgPx] \<rparr>"

definition resting_reply :: order_result where
  "resting_reply = \<lparr> status = ''ok'', statuses = Some [Resting] \<rparr>"

definition rejected_reply :: order_result where
  "rejected_reply = \<lparr> status = ''err'', statuses = None \<rparr>"

definition example_client ::
  "int \<Rightarrow> order_result \<Rightarrow> order_result \<Rightarrow> order_result \<Rightarrow> client" where
  "example_client sz_decimals entry_reply sl_reply tp_reply =
     \<lparr> universe = [(''ETH'', 4), (''BTC'', sz_decimals)],
       reply = (\<lambda>sent req. case req of
                  Market_open _ _ _ \<Rightarrow> entry_reply
                | Order _ _ _ _ _ _ _ SL \<Rightarrow> sl_reply
                | Order _ _ _ _ _ _ _ TP \<Rightarrow> tp_reply) \<rparr>"

definition example_market :: "rat \<Rightarrow> rat \<Rightarrow> market" where
  "example_market balance price =
     \<lparr> accountValue = balance, assetPositions = [],
       all_mids = (\<lambda>a. if a = ''BTC'' then Some price else None) \<rparr>"

definition example_window :: "rat list" where
  "example_window = [100, 90, 110, 100, 100, 100, 100, 100, 100, 100, 100, 100]"

section \<open>Rounding is monotone\<close>




section \<open>Rounding to a float\<close>












section \<open>Properties of the window\<close>

lemma deque_run_appends:
  "length (xs @ ps) \<le> n \<Longrightarrow> deque_run n (map Append ps) xs = xs @ ps"
  by (induction ps arbitrary: xs) (auto simp: deque_run_def deque_append_def)

lemma deque_apply_length: "length xs \<le> n \<Longrightarrow> length (deque_apply n xs op) \<le> n"
  by (cases op) (auto simp: deque_append_def deque_clear_def Let_def)

lemma deque_run_length: "length xs \<le> n \<Longrightarrow> length (deque_run n ops xs) \<le> n"
  unfolding deque_run_def
  by (induction ops arbitrary: xs) (auto simp: deque_apply_length)

lemma deque_append_full:
  "length xs = n \<Longrightarrow> 0 < n \<Longrightarrow> deque_append n xs x = tl xs @ [x]"
  by (cases xs) (auto simp: deque_append_def)



text \<open>
  C10. From the empty window, appending at most \<open>n\<close> prices leaves exactly those prices,
  so the length is the number appended; appending to a full window drops the oldest
  price and keeps the others in order; and after any sequence of appends and clears the
  length is at most \<open>n\<close>. The bot's window has \<open>n = DON_MAX_PERIOD = 12\<close>.
\<close>

theorem price_window_capacity:
  "(length ps \<le> n \<longrightarrow>
      deque_run n (map Append ps) [] = ps \<and>
      length (deque_run n (map Append ps) []) = length ps) \<and>
   (length xs = n \<and> 0 < n \<longrightarrow> deque_append n xs x = tl xs @ [x]) \<and>
   length (deque_run n ops []) \<le> n"
  using deque_run_appends [of "[]" ps n] deque_append_full [of xs n x]
    deque_run_length [of "[]" n ops]
  by simp

theorem price_window_capacity_witness:
  "length [7, 8, 9 :: rat] \<le> DON_MAX_PERIOD bot_config \<and>
   deque_run (DON_MAX_PERIOD bot_config) (map Append [7, 8, 9 :: rat]) [] = [7, 8, 9] \<and>
   length example_window = DON_MAX_PERIOD bot_config \<and> 0 < DON_MAX_PERIOD bot_config \<and>
   deque_append (DON_MAX_PERIOD bot_config) example_window 111 = tl example_window @ [111] \<and>
   length (deque_run (DON_MAX_PERIOD bot_config) [Append 1, Clear, Append (2 :: rat)] [])
     \<le> DON_MAX_PERIOD bot_config"
  using price_window_capacity
    [of "[7, 8, 9 :: rat]" "DON_MAX_PERIOD bot_config" example_window 111
        "[Append 1, Clear, Append (2 :: rat)]"]
  by (simp add: bot_config_def example_window_def)

section \<open>Properties of position sizing\<close>

text \<open>
  C5. When the stop-loss percentage or the current price is zero, the check inside
  \<open>calculate_position_size\<close> raises before \<open>min_position_size\<close> is assigned, and the
  handler's \<open>return min_position_size\<close> raises \<open>UnboundLocalError\<close> (a \<open>NameError\<close>):
  the function raises instead of returning the minimum size.
\<close>

theorem sizing_fallback_unbound:
  "STOP_LOSS_PERCENT c = 0 \<or> current_price = 0 \<Longrightarrow>
   calculate_position_size c balance current_price =
     Inl (UnboundLocalError ''min_position_size'')"
  by (auto simp: calculate_position_size_def calculate_position_size_try_def)

theorem sizing_fallback_unbound_witness:
  "(STOP_LOSS_PERCENT (bot_config\<lparr>STOP_LOSS_PERCENT := 0\<rparr>) = 0 \<or> (50000 :: rat) = 0) \<and>
   calculate_position_size (bot_config\<lparr>STOP_LOSS_PERCENT := 0\<rparr>) 1000 50000 =
     Inl (UnboundLocalError ''min_position_size'')"
  using sizing_fallback_unbound [of "bot_config\<lparr>STOP_LOSS_PERCENT := 0\<rparr>" 50000 1000]
  by simp

text \<open>
  C4, as the code has it. With a zero stop-loss percentage, or else a zero current
  price, the body of \<open>calculate_position_size\<close> raises \<open>ValueError\<close> before any size
  is computed. That \<open>ValueError\<close> is raised inside the function's own \<open>try\<close> block,
  whose handler catches every exception: it is never the error the caller sees, and no
  parameter switches the handler on or off.
\<close>

theorem sizing_zero_checks:
  "(STOP_LOSS_PERCENT c = 0 \<longrightarrow>
      calculate_position_size_try c balance current_price =
        Inl (ValueError ''STOP_LOSS_PERCENT cannot be 0'', None)) \<and>
   (STOP_LOSS_PERCENT c \<noteq> 0 \<and> current_price = 0 \<longrightarrow>
      calculate_position_size_try c balance current_price =
        Inl (ValueError ''Current price cannot be 0'', None)) \<and>
   calculate_position_size c balance current_price \<noteq> Inl (ValueError msg)"
  by (auto simp: calculate_position_size_def calculate_position_size_try_def py_div_def Let_def
      split: sum.splits option.splits)

theorem sizing_zero_checks_witness:
  "STOP_LOSS_PERCENT (bot_config\<lparr>STOP_LOSS_PERCENT := 0\<rparr>) = 0 \<and>
   calculate_position_size_try (bot_config\<lparr>STOP_LOSS_PERCENT := 0\<rparr>) 1000 0 =
     Inl (ValueError ''STOP_LOSS_PERCENT cannot be 0'', None) \<and>
   STOP_LOSS_PERCENT bot_config \<noteq> 0 \<and> (0 :: rat) = 0 \<and>
   calculate_position_size_try bot_config 1000 0 =
     Inl (ValueError ''Current price cannot be 0'', None) \<and>
   calculate_position_size bot_config 1000 0 \<noteq> Inl (ValueError ''Current price cannot be 0'')"
  using sizing_zero_checks [of "bot_config\<lparr>STOP_LOSS_PERCENT := 0\<rparr>" 1000 0]
    sizing_zero_checks [of bot_config 1000 0 "''Current price cannot be 0''"]
  by (simp add: bot_config_def)

text \<open>
  At a zero price the call ends in \<open>UnboundLocalError\<close>: not in the check's
  \<open>ValueError\<close>, and not with the minimum size.
\<close>

theorem sizing_zero_price_counterexample:
  "calculate_position_size bot_config 1000 0 = Inl (UnboundLocalError ''min_position_size'') \<and>
   calculate_position_size bot_config 1000 0 \<noteq> Inl (ValueError ''Current price cannot be 0'') \<and>
   calculate_position_size bot_config 1000 0 \<noteq> Inr (1 / 1000)"
  by (simp add: calculate_position_size_def calculate_position_size_try_def bot_config_def)

section \<open>The breakout signal\<close>


section \<open>Entry and exit orders\<close>

lemma place_stop_loss_eq:
  "place_stop_loss cl asset sz p b sent = (r, sent') \<Longrightarrow>
     sent' = sent @ [Order asset b sz p True p True SL] \<and>
     (accepted (reply cl sent (Order asset b sz p True p True SL)) \<longleftrightarrow> (\<exists>order. r = Inr order))"
  by (auto simp: place_stop_loss_def accepted_def Let_def split: if_splits option.splits list.splits order_status.splits)

lemma place_take_profit_eq:
  "place_take_profit cl asset sz p b sent = (r, sent') \<Longrightarrow>
     sent' = sent @ [Order asset b sz p True p True TP] \<and>
     (accepted (reply cl sent (Order asset b sz p True p True TP)) \<longleftrightarrow> (\<exists>order. r = Inr order))"
  by (auto simp: place_take_profit_def accepted_def Let_def split: if_splits option.splits list.splits order_status.splits)

lemma buy_filled:
  fixes c cl asset position_size sent mi a
  defines "sz \<equiv> py_round position_size (snd mi)"
  defines "entry_price \<equiv> py_int a"
  defines "E \<equiv> Market_open asset True sz"
  defines "stop_loss_price \<equiv> py_int (of_int entry_price * (1 - STOP_LOSS_PERCENT c / 100))"
  defines "take_profit_price \<equiv> py_int (of_int entry_price * (1 + TAKE_PROFIT_PERCENT c / 100))"
  defines "S \<equiv> Order asset False sz stop_loss_price True stop_loss_price True SL"
  defines "T \<equiv> Order asset False sz take_profit_price True take_profit_price True TP"
  assumes mi: "get_market_info cl asset = Inr mi"
    and pos: "0 < position_size"
    and fill: "entry_fill (reply cl sent E) = Some a"
  shows "buy c cl asset position_size sent =
     (if accepted (reply cl (sent @ [E]) S)
      then (accepted (reply cl (sent @ [E, S]) T), sent @ [E, S, T])
      else (False, sent @ [E, S]))"
proof -
  obtain r1 s1 where p1: "place_stop_loss cl asset sz stop_loss_price False (sent @ [E]) = (r1, s1)"
    by (cases "place_stop_loss cl asset sz stop_loss_price False (sent @ [E])")
  obtain r2 s2 where p2: "place_take_profit cl asset sz take_profit_price False s1 = (r2, s2)"
    by (cases "place_take_profit cl asset sz take_profit_price False s1")
  note e1 = place_stop_loss_eq[OF p1] and e2 = place_take_profit_eq[OF p2]
  from fill obtain rest where st: "status (reply cl sent E) = ''ok''"
      "statuses (reply cl sent E) = Some (Filled a # rest)"
    by (auto simp: entry_fill_def split: if_splits option.splits list.splits order_status.splits)
  have "buy_try c cl asset position_size sent =
      (case r1 of Inl e \<Rightarrow> (Inl e, s1) | Inr _ \<Rightarrow> (case r2 of Inl e \<Rightarrow> (Inl e, s2) | Inr _ \<Rightarrow> (Inr True, s2)))"
    using mi pos st p1 p2
    unfolding buy_try_def sz_def entry_price_def E_def stop_loss_price_def take_profit_price_def
    by (simp add: Let_def split: sum.splits)
  then show ?thesis using e1 e2 unfolding buy_def S_def T_def
    by (auto split: sum.splits)
qed

lemma buy_not_filled:
  assumes "get_market_info cl asset = Inr mi" "0 < position_size"
    and "entry_fill (reply cl sent (Market_open asset True (py_round position_size (snd mi)))) = None"
  shows "buy c cl asset position_size sent =
           (False, sent @ [Market_open asset True (py_round position_size (snd mi))])"
  using assms unfolding buy_def buy_try_def entry_fill_def
  by (simp add: Let_def split: if_splits option.splits list.splits order_status.splits)

lemma buy_no_entry:
  assumes "(\<exists>e. get_market_info cl asset = Inl e) \<or> position_size \<le> 0"
  shows "buy c cl asset position_size sent = (False, sent)"
  using assms unfolding buy_def buy_try_def
  by (auto simp add: Let_def split: sum.splits)

lemma buy_success:
  assumes ok: "buy c cl asset position_size sent = (True, sent')"
  shows "\<exists>sz a. entry_fill (reply cl sent (Market_open asset True sz)) = Some a \<and>
     sent' = sent @
       [Market_open asset True sz,
        Order asset False sz
          (py_int (of_int (py_int a) * (1 - STOP_LOSS_PERCENT c / 100))) True
          (py_int (of_int (py_int a) * (1 - STOP_LOSS_PERCENT c / 100))) True SL,
        Order asset False sz
          (py_int (of_int (py_int a) * (1 + STOP_LOSS_PERCENT c * RISK_REWARD_RATIO c / 100))) True
          (py_int (of_int (py_int a) * (1 + STOP_LOSS_PERCENT c * RISK_REWARD_RATIO c / 100))) True TP]"
proof -
  from ok obtain mi where mi: "get_market_info cl asset = Inr mi" and pos: "0 < position_size"
    using buy_no_entry [of cl asset position_size c sent]
    by (cases "get_market_info cl asset") (auto simp: not_le [symmetric])
  let ?E = "Market_open asset True (py_round position_size (snd mi))"
  from ok mi pos obtain a where fill: "entry_fill (reply cl sent ?E) = Some a"
    using buy_not_filled [of cl asset mi position_size sent c]
    by (cases "entry_fill (reply cl sent ?E)") auto
  show ?thesis
    using ok buy_filled [OF mi pos fill, of c] fill
    by (auto simp: TAKE_PROFIT_PERCENT_def split: if_splits)
qed

lemma sell_filled:
  fixes c cl asset position_size sent mi a
  defines "sz \<equiv> py_round position_size (snd mi)"
  defines "entry_price \<equiv> py_int a"
  defines "E \<equiv> Market_open asset False sz"
  defines "stop_loss_price \<equiv> py_int (of_int entry_price * (1 + STOP_LOSS_PERCENT c / 100))"
  defines "take_profit_price \<equiv> py_int (of_int entry_price * (1 - TAKE_PROFIT_PERCENT c / 100))"
  defines "S \<equiv> Order asset True sz stop_loss_price True stop_loss_price True SL"
  defines "T \<equiv> Order asset True sz take_profit_price True take_profit_price True TP"
  assumes mi: "get_market_info cl asset = Inr mi"
    and pos: "0 < position_size"
    and fill: "entry_fill (reply cl sent E) = Some a"
  shows "sell c cl asset position_size sent =
     (if accepted (reply cl (sent @ [E]) S)
      then (accepted (reply cl (sent @ [E, S]) T), sent @ [E, S, T])
      else (False, sent @ [E, S]))"
proof -
  obtain r1 s1 where p1: "place_stop_loss cl asset sz stop_loss_price True (sent @ [E]) = (r1, s1)"
    by (cases "place_stop_loss cl asset sz stop_loss_price True (sent @ [E])")
  obtain r2 s2 where p2: "place_take_profit cl asset sz take_profit_price True s1 = (r2, s2)"
    by (cases "place_take_profit cl asset sz take_profit_price True s1")
  note e1 = place_stop_loss_eq[OF p1] and e2 = place_take_profit_eq[OF p2]
  from fill obtain rest where st: "status (reply cl sent E) = ''ok''"
      "statuses (reply cl sent E) = Some (Filled a # rest)"
    by (auto simp: entry_fill_def split: if_splits option.splits list.splits order_status.splits)
  have "sell_try c cl asset position_size sent =
      (case r1 of Inl e \<Rightarrow> (Inl e, s1) | Inr _ \<Rightarrow> (case r2 of Inl e \<Rightarrow> (Inl e, s2) | Inr _ \<Rightarrow> (Inr True, s2)))"
    using mi pos st p1 p2
    unfolding sell_try_def sz_def entry_price_def E_def stop_loss_price_def take_profit_price_def
    by (simp add: Let_def split: sum.splits)
  then show ?thesis using e1 e2 unfolding sell_def S_def T_def
    by (auto split: sum.splits)
qed

lemma sell_not_filled:
  assumes "get_market_info cl asset = Inr mi" "0 < position_size"
    and "entry_fill (reply cl sent (Market_open asset False (py_round position_size (snd mi)))) = None"
  shows "sell c cl asset position_size sent =
           (False, sent @ [Market_open asset False (py_round position_size (snd mi))])"
  using assms unfolding sell_def sell_try_def entry_fill_def
  by (simp add: Let_def split: if_splits option.splits list.splits order_status.splits)

lemma sell_no_entry:
  assumes "(\<exists>e. get_market_info cl asset = Inl e) \<or> position_size \<le> 0"
  shows "sell c cl asset position_size sent = (False, sent)"
  using assms unfolding sell_def sell_try_def
  by (auto simp add: Let_def split: sum.splits)

lemma sell_success:
  assumes ok: "sell c cl asset position_size sent = (True, sent')"
  shows "\<exists>sz a. entry_fill (reply cl sent (Market_open asset False sz)) = Some a \<and>
     sent' = sent @
       [Market_open asset False sz,
        Order asset True sz
          (py_int (of_int (py_int a) * (1 + STOP_LOSS_PERCENT c / 100))) True
          (py_int (of_int (py_int a) * (1 + STOP_LOSS_PERCENT c / 100))) True SL,
        Order asset True sz
          (py_int (of_int (py_int a) * (1 - STOP_LOSS_PERCENT c * RISK_REWARD_RATIO c / 100))) True
          (py_int (of_int (py_int a) * (1 - STOP_LOSS_PERCENT c * RISK_REWARD_RATIO c / 100))) True TP]"
proof -
  from ok obtain mi where mi: "get_market_info cl asset = Inr mi" and pos: "0 < position_size"
    using sell_no_entry [of cl asset position_size c sent]
    by (cases "get_market_info cl asset") (auto simp: not_le [symmetric])
  let ?E = "Market_open asset False (py_round position_size (snd mi))"
  from ok mi pos obtain a where fill: "entry_fill (reply cl sent ?E) = Some a"
    using sell_not_filled [of cl asset mi position_size sent c]
    by (cases "entry_fill (reply cl sent ?E)") auto
  show ?thesis
    using ok sell_filled [OF mi pos fill, of c] fill
    by (auto simp: TAKE_PROFIT_PERCENT_def split: if_splits)
qed

lemma traded_cycle:
  assumes "run_trading_strategy c cl mk asset st = (Inr (Traded sg r), st')"
    and "all_mids mk asset = Some p"
  shows "sg \<noteq> NONE \<and> signal c (last_prices st) p = Inr sg \<and>
         last_prices st' = deque_append (DON_MAX_PERIOD c) [] p"
  using assms unfolding run_trading_strategy_def signal_def
  by (auto simp: Let_def deque_clear_def
      split: option.splits if_splits sum.splits signal.splits prod.splits)

lemma restart_window:
  assumes "0 < DON_MAX_PERIOD c"
  shows "deque_append (DON_MAX_PERIOD c) [] p = [p]"
    and "1 < DON_MAX_PERIOD c \<Longrightarrow> signal c [p] q = Inr NONE"
  using assms by (simp_all add: deque_append_def signal_def)


text \<open>
  C1, as the code has it. When the entry is filled and the exchange does not accept the
  stop-loss order, \<open>buy\<close> stops there: it returns \<open>False\<close> and has sent the entry and the
  stop-loss order, and no take-profit order. Every failure ends the attempt, not only a
  failure of the entry.
\<close>

theorem stop_loss_failure_ends_attempt:
  fixes c cl asset position_size sent mi a
  defines "sz \<equiv> py_round position_size (snd mi)"
  defines "E \<equiv> Market_open asset True sz"
  defines "stop_loss_price \<equiv> py_int (of_int (py_int a) * (1 - STOP_LOSS_PERCENT c / 100))"
  defines "S \<equiv> Order asset False sz stop_loss_price True stop_loss_price True SL"
  assumes "get_market_info cl asset = Inr mi"
    and "0 < position_size"
    and "entry_fill (reply cl sent E) = Some a"
    and "\<not> accepted (reply cl (sent @ [E]) S)"
  shows "buy c cl asset position_size sent = (False, sent @ [E, S])"
  using buy_filled [OF assms(5,6), of sent a c] assms(7,8)
  unfolding sz_def E_def stop_loss_price_def S_def
  by simp

theorem stop_loss_failure_ends_attempt_witness:
  "get_market_info (example_client 5 (filled_reply 50000) rejected_reply resting_reply) ''BTC'' =
     Inr (''BTC'', 5) \<and>
   (0 :: rat) < 4 / 100 \<and>
   entry_fill (reply (example_client 5 (filled_reply 50000) rejected_reply resting_reply) []
     (Market_open ''BTC'' True (4 / 100))) = Some 50000 \<and>
   \<not> accepted (reply (example_client 5 (filled_reply 50000) rejected_reply resting_reply)
     [Market_open ''BTC'' True (4 / 100)]
     (Order ''BTC'' False (4 / 100) 49500 True 49500 True SL)) \<and>
   buy bot_config (example_client 5 (filled_reply 50000) rejected_reply resting_reply)
     ''BTC'' (4 / 100) [] =
     (False, [Market_open ''BTC'' True (4 / 100),
              Order ''BTC'' False (4 / 100) 49500 True 49500 True SL])"
proof -
  let ?cl = "example_client 5 (filled_reply 50000) rejected_reply resting_reply"
  have mi: "get_market_info ?cl ''BTC'' = Inr (''BTC'', 5)"
    by (simp add: get_market_info_def example_client_def)
  have pos: "(0 :: rat) < 4 / 100"
    by simp
  have sz: "py_round (1 / 25) 5 = 1 / 25"
    by (simp add: py_round_def round_half_even_def)
  have px: "py_int (of_int (py_int 50000) * (1 - STOP_LOSS_PERCENT bot_config / 100)) = 49500"
    by (simp add: py_int_def bot_config_def)
  have fill: "entry_fill (reply ?cl [] (Market_open ''BTC'' True (4 / 100))) = Some 50000"
    by (simp add: entry_fill_def example_client_def filled_reply_def)
  have rej: "\<not> accepted (reply ?cl [Market_open ''BTC'' True (4 / 100)]
      (Order ''BTC'' False (4 / 100) 49500 True 49500 True SL))"
    by (simp add: accepted_def example_client_def rejected_reply_def)
  show ?thesis
    using mi pos fill rej
      stop_loss_failure_ends_attempt [of ?cl "''BTC''" "(''BTC'', 5)" "4 / 100" "[]" 50000 bot_config]
    by (simp add: sz px)
qed

text \<open>
  An entry filled at 60100.5 and a stop-loss order answered with an error entry: the
  take-profit order at 61302 is never sent.
\<close>

theorem take_profit_attempt_counterexample:
  "entry_fill (reply (example_client 5 (filled_reply (601005 / 10))
       \<lparr>status = ''ok'', statuses = Some [Error ''Invalid trigger'']\<rparr> resting_reply) []
     (Market_open ''BTC'' True (4 / 100))) = Some (601005 / 10) \<and>
   buy bot_config (example_client 5 (filled_reply (601005 / 10))
       \<lparr>status = ''ok'', statuses = Some [Error ''Invalid trigger'']\<rparr> resting_reply)
     ''BTC'' (4 / 100) [] =
     (False, [Market_open ''BTC'' True (4 / 100),
              Order ''BTC'' False (4 / 100) 59499 True 59499 True SL]) \<and>
   Order ''BTC'' False (4 / 100) 61302 True 61302 True TP \<notin>
     set (snd (buy bot_config (example_client 5 (filled_reply (601005 / 10))
       \<lparr>status = ''ok'', statuses = Some [Error ''Invalid trigger'']\<rparr> resting_reply)
     ''BTC'' (4 / 100) []))"
  by code_simp

text \<open>
  C7. When \<open>buy\<close> returns \<open>True\<close> it has sent the entry, then a stop-loss order at
  \<open>int(entry * (1 - S / 100))\<close>, then a take-profit order at
  \<open>int(entry * (1 + T / 100))\<close>, where \<open>entry\<close> is the fill price truncated to an
  integer, \<open>S\<close> the stop-loss percentage and \<open>T = S * RISK_REWARD_RATIO\<close>. For \<open>sell\<close>
  the stop price is \<open>int(entry * (1 + S / 100))\<close> and the take-profit price
  \<open>int(entry * (1 - T / 100))\<close>.
\<close>

theorem exit_prices_from_entry:
  "(buy c cl asset position_size sent = (True, sent_by_buy) \<longrightarrow>
      (\<exists>sz a. entry_fill (reply cl sent (Market_open asset True sz)) = Some a \<and>
         (let entry = of_int (py_int a);
              T = STOP_LOSS_PERCENT c * RISK_REWARD_RATIO c;
              stop_price = py_int (entry * (1 - STOP_LOSS_PERCENT c / 100));
              take_profit_price = py_int (entry * (1 + T / 100))
          in sent_by_buy = sent @
               [Market_open asset True sz,
                Order asset False sz stop_price True stop_price True SL,
                Order asset False sz take_profit_price True take_profit_price True TP]))) \<and>
   (sell c cl asset position_size sent = (True, sent_by_sell) \<longrightarrow>
      (\<exists>sz a. entry_fill (reply cl sent (Market_open asset False sz)) = Some a \<and>
         (let entry = of_int (py_int a);
              T = STOP_LOSS_PERCENT c * RISK_REWARD_RATIO c;
              stop_price = py_int (entry * (1 + STOP_LOSS_PERCENT c / 100));
              take_profit_price = py_int (entry * (1 - T / 100))
          in sent_by_sell = sent @
               [Market_open asset False sz,
                Order asset True sz stop_price True stop_price True SL,
                Order asset True sz take_profit_price True take_profit_price True TP])))"
  using buy_success [of c cl asset position_size sent sent_by_buy]
    sell_success [of c cl asset position_size sent sent_by_sell]
  by (simp add: Let_def)

theorem exit_prices_from_entry_witness:
  "buy bot_config (example_client 5 (filled_reply (500007 / 10)) resting_reply resting_reply)
     ''BTC'' (4 / 100) [] =
     (True, [Market_open ''BTC'' True (4 / 100),
             Order ''BTC'' False (4 / 100) 49500 True 49500 True SL,
             Order ''BTC'' False (4 / 100) 51000 True 51000 True TP]) \<and>
   sell bot_config (example_client 5 (filled_reply (500007 / 10)) resting_reply resting_reply)
     ''BTC'' (4 / 100) [] =
     (True, [Market_open ''BTC'' False (4 / 100),
             Order ''BTC'' True (4 / 100) 50500 True 50500 True SL,
             Order ''BTC'' True (4 / 100) 49000 True 49000 True TP]) \<and>
   (\<exists>sz a. entry_fill (reply (example_client 5 (filled_reply (500007 / 10)) resting_reply
         resting_reply) [] (Market_open ''BTC'' True sz)) = Some a \<and>
      (let entry = of_int (py_int a);
           T = STOP_LOSS_PERCENT bot_config * RISK_REWARD_RATIO bot_config;
           stop_price = py_int (entry * (1 - STOP_LOSS_PERCENT bot_config / 100));
           take_profit_price = py_int (entry * (1 + T / 100))
       in [Market_open ''BTC'' True (4 / 100),
           Order ''BTC'' False (4 / 100) 49500 True 49500 True SL,
           Order ''BTC'' False (4 / 100) 51000 True 51000 True TP] = [] @
            [Market_open ''BTC'' True sz,
             Order ''BTC'' False sz stop_price True stop_price True SL,
             Order ''BTC'' False sz take_profit_price True take_profit_price True TP])) \<and>
   (\<exists>sz a. entry_fill (reply (example_client 5 (filled_reply (500007 / 10)) resting_reply
         resting_reply) [] (Market_open ''BTC'' False sz)) = Some a \<and>
      (let entry = of_int (py_int a);
           T = STOP_LOSS_PERCENT bot_config * RISK_REWARD_RATIO bot_config;
           stop_price = py_int (entry * (1 + STOP_LOSS_PERCENT bot_config / 100));
           take_profit_price = py_int (entry * (1 - T / 100))
       in [Market_open ''BTC'' False (4 / 100),
           Order ''BTC'' True (4 / 100) 50500 True 50500 True SL,
           Order ''BTC'' True (4 / 100) 49000 True 49000 True TP] = [] @
            [Market_open ''BTC'' False sz,
             Order ''BTC'' True sz stop_price True stop_price True SL,
             Order ''BTC'' True sz take_profit_price True take_profit_price True TP]))"
proof -
  let ?cl = "example_client 5 (filled_reply (500007 / 10)) resting_reply resting_reply"
  let ?bought = "[Market_open ''BTC'' True (4 / 100),
             Order ''BTC'' False (4 / 100) 49500 True 49500 True SL,
             Order ''BTC'' False (4 / 100) 51000 True 51000 True TP]"
  let ?sold = "[Market_open ''BTC'' False (4 / 100),
             Order ''BTC'' True (4 / 100) 50500 True 50500 True SL,
             Order ''BTC'' True (4 / 100) 49000 True 49000 True TP]"
  have b: "buy bot_config ?cl ''BTC'' (4 / 100) [] = (True, ?bought)"
    by code_simp
  have s: "sell bot_config ?cl ''BTC'' (4 / 100) [] = (True, ?sold)"
    by code_simp
  note inst = exit_prices_from_entry [of bot_config ?cl "''BTC''" "4 / 100" "[]" ?bought ?sold]
  from inst [THEN conjunct1, THEN mp, OF b] inst [THEN conjunct2, THEN mp, OF s] b s
  show ?thesis
    by (intro conjI)
qed

text \<open>
  C9. When the entry is filled and the stop-loss or the take-profit order is then not
  accepted, \<open>buy\<close> and \<open>sell\<close> return \<open>False\<close>, and the requests sent are the entry,
  the stop-loss order and, if the stop-loss order was accepted, the take-profit order:
  reduce-only trigger orders. No other order follows the entry, so nothing closes the
  position; the failure shows as the \<open>False\<close> result.
\<close>

theorem exit_failure_leaves_entry:
  fixes c cl asset position_size sent mi a
  defines "sz \<equiv> py_round position_size (snd mi)"
  defines "entry \<equiv> of_int (py_int a)"
  defines "Eb \<equiv> Market_open asset True sz"
  defines "pb \<equiv> py_int (entry * (1 - STOP_LOSS_PERCENT c / 100))"
  defines "qb \<equiv> py_int (entry * (1 + TAKE_PROFIT_PERCENT c / 100))"
  defines "Sb \<equiv> Order asset False sz pb True pb True SL"
  defines "Tb \<equiv> Order asset False sz qb True qb True TP"
  defines "Es \<equiv> Market_open asset False sz"
  defines "ps \<equiv> py_int (entry * (1 + STOP_LOSS_PERCENT c / 100))"
  defines "qs \<equiv> py_int (entry * (1 - TAKE_PROFIT_PERCENT c / 100))"
  defines "Ss \<equiv> Order asset True sz ps True ps True SL"
  defines "Ts \<equiv> Order asset True sz qs True qs True TP"
  assumes "get_market_info cl asset = Inr mi" and "0 < position_size"
  shows
    "(entry_fill (reply cl sent Eb) = Some a \<and>
      \<not> (accepted (reply cl (sent @ [Eb]) Sb) \<and> accepted (reply cl (sent @ [Eb, Sb]) Tb)) \<longrightarrow>
        buy c cl asset position_size sent =
          (False, sent @ (if accepted (reply cl (sent @ [Eb]) Sb)
                          then [Eb, Sb, Tb] else [Eb, Sb]))) \<and>
     (entry_fill (reply cl sent Es) = Some a \<and>
      \<not> (accepted (reply cl (sent @ [Es]) Ss) \<and> accepted (reply cl (sent @ [Es, Ss]) Ts)) \<longrightarrow>
        sell c cl asset position_size sent =
          (False, sent @ (if accepted (reply cl (sent @ [Es]) Ss)
                          then [Es, Ss, Ts] else [Es, Ss])))"
  using buy_filled [OF assms(13,14), of sent a c] sell_filled [OF assms(13,14), of sent a c]
  unfolding sz_def entry_def Eb_def pb_def qb_def Sb_def Tb_def Es_def ps_def qs_def Ss_def Ts_def
  by auto

theorem exit_failure_leaves_entry_witness:
  "get_market_info (example_client 5 (filled_reply 50000) resting_reply rejected_reply) ''BTC'' =
     Inr (''BTC'', 5) \<and>
   (0 :: rat) < 4 / 100 \<and>
   entry_fill (reply (example_client 5 (filled_reply 50000) resting_reply rejected_reply) []
     (Market_open ''BTC'' True (4 / 100))) = Some 50000 \<and>
   \<not> accepted (reply (example_client 5 (filled_reply 50000) resting_reply rejected_reply)
       [Market_open ''BTC'' True (4 / 100), Order ''BTC'' False (4 / 100) 49500 True 49500 True SL]
       (Order ''BTC'' False (4 / 100) 51000 True 51000 True TP)) \<and>
   buy bot_config (example_client 5 (filled_reply 50000) resting_reply rejected_reply)
       ''BTC'' (4 / 100) [] =
     (False, [Market_open ''BTC'' True (4 / 100),
              Order ''BTC'' False (4 / 100) 49500 True 49500 True SL,
              Order ''BTC'' False (4 / 100) 51000 True 51000 True TP]) \<and>
   entry_fill (reply (example_client 5 (filled_reply 50000) resting_reply rejected_reply) []
     (Market_open ''BTC'' False (4 / 100))) = Some 50000 \<and>
   \<not> accepted (reply (example_client 5 (filled_reply 50000) resting_reply rejected_reply)
       [Market_open ''BTC'' False (4 / 100), Order ''BTC'' True (4 / 100) 50500 True 50500 True SL]
       (Order ''BTC'' True (4 / 100) 49000 True 49000 True TP)) \<and>
   sell bot_config (example_client 5 (filled_reply 50000) resting_reply rejected_reply)
       ''BTC'' (4 / 100) [] =
     (False, [Market_open ''BTC'' False (4 / 100),
              Order ''BTC'' True (4 / 100) 50500 True 50500 True SL,
              Order ''BTC'' True (4 / 100) 49000 True 49000 True TP])"
proof -
  let ?cl = "example_client 5 (filled_reply 50000) resting_reply rejected_reply"
  have mi: "get_market_info ?cl ''BTC'' = Inr (''BTC'', 5)"
    by code_simp
  have pos: "(0 :: rat) < 4 / 100"
    by simp
  have sz: "py_round (1 / 25) 5 = 1 / 25"
    by code_simp
  have px: "py_int (of_int (py_int 50000) * (1 - STOP_LOSS_PERCENT bot_config / 100)) = 49500"
    "py_int (of_int (py_int 50000) * (1 + TAKE_PROFIT_PERCENT bot_config / 100)) = 51000"
    "py_int (of_int (py_int 50000) * (1 + STOP_LOSS_PERCENT bot_config / 100)) = 50500"
    "py_int (of_int (py_int 50000) * (1 - TAKE_PROFIT_PERCENT bot_config / 100)) = 49000"
    by code_simp+
  have fb: "entry_fill (reply ?cl [] (Market_open ''BTC'' True (4 / 100))) = Some 50000"
    and fs: "entry_fill (reply ?cl [] (Market_open ''BTC'' False (4 / 100))) = Some 50000"
    by code_simp+
  have slb: "accepted (reply ?cl [Market_open ''BTC'' True (4 / 100)]
       (Order ''BTC'' False (4 / 100) 49500 True 49500 True SL))"
    and sls: "accepted (reply ?cl [Market_open ''BTC'' False (4 / 100)]
       (Order ''BTC'' True (4 / 100) 50500 True 50500 True SL))"
    by code_simp+
  have tpb: "\<not> accepted (reply ?cl
       [Market_open ''BTC'' True (4 / 100), Order ''BTC'' False (4 / 100) 49500 True 49500 True SL]
       (Order ''BTC'' False (4 / 100) 51000 True 51000 True TP))"
    and tps: "\<not> accepted (reply ?cl
       [Market_open ''BTC'' False (4 / 100), Order ''BTC'' True (4 / 100) 50500 True 50500 True SL]
       (Order ''BTC'' True (4 / 100) 49000 True 49000 True TP))"
    by code_simp+
  show ?thesis
    using mi pos fb fs slb sls tpb tps
      exit_failure_leaves_entry [OF mi pos, of "[]" 50000 bot_config]
    by (simp add: sz px)
qed

section \<open>The breakout decision of a cycle\<close>




section \<open>The window after a trade\<close>

text \<open>
  C2, as the code has it. The value of \<open>buy\<close> or \<open>sell\<close> is discarded: a cycle whose
  trade attempt fails clears the window like one whose attempt succeeds, and then
  appends the current price. The next cycle starts with that single price, collecting,
  and evaluates no breakout.
\<close>

theorem failed_trade_clears_window:
  assumes "run_trading_strategy c cl mk asset st = (Inr (Traded sg False), st')"
    and "all_mids mk asset = Some p"
    and "1 < DON_MAX_PERIOD c"
  shows "sg \<noteq> NONE \<and> signal c (last_prices st) p = Inr sg \<and>
         last_prices st' = [p] \<and> signal c (last_prices st') q = Inr NONE"
  using traded_cycle [OF assms(1,2)] restart_window(1) [of c p] restart_window(2) [of c p q] assms(3)
  by simp

theorem failed_trade_clears_window_witness:
  "run_trading_strategy bot_config
     (example_client 5 rejected_reply resting_reply resting_reply)
     (example_market 89 89) ''BTC'' \<lparr>last_prices = example_window, orders_sent = []\<rparr> =
     (Inr (Traded SHORT False),
      \<lparr>last_prices = [89], orders_sent = [Market_open ''BTC'' False 2]\<rparr>) \<and>
   all_mids (example_market 89 89) ''BTC'' = Some 89 \<and>
   1 < DON_MAX_PERIOD bot_config \<and>
   SHORT \<noteq> NONE \<and>
   signal bot_config example_window 89 = Inr SHORT \<and>
   signal bot_config [89] 95 = Inr NONE"
proof -
  have run: "run_trading_strategy bot_config
     (example_client 5 rejected_reply resting_reply resting_reply)
     (example_market 89 89) ''BTC'' \<lparr>last_prices = example_window, orders_sent = []\<rparr> =
     (Inr (Traded SHORT False),
      \<lparr>last_prices = [89], orders_sent = [Market_open ''BTC'' False 2]\<rparr>)"
    by code_simp
  have mids: "all_mids (example_market 89 89) ''BTC'' = Some 89"
    by (simp add: example_market_def)
  have n: "1 < DON_MAX_PERIOD bot_config"
    by (simp add: bot_config_def)
  show ?thesis
    using run mids n failed_trade_clears_window [OF run mids n, of 95]
    by simp
qed

text \<open>
  A full window, a price above its maximum and an entry the exchange rejects: after the
  cycle the window holds the one price, not the twelve it held.
\<close>

theorem failed_trade_window_counterexample:
  "run_trading_strategy bot_config
     (example_client 5 rejected_reply resting_reply resting_reply)
     (example_market 111 111) ''BTC'' \<lparr>last_prices = example_window, orders_sent = []\<rparr> =
     (Inr (Traded LONG False),
      \<lparr>last_prices = [111], orders_sent = [Market_open ''BTC'' True 2]\<rparr>) \<and>
   length example_window = DON_MAX_PERIOD bot_config \<and>
   length (last_prices (snd (run_trading_strategy bot_config
     (example_client 5 rejected_reply resting_reply resting_reply)
     (example_market 111 111) ''BTC'' \<lparr>last_prices = example_window, orders_sent = []\<rparr>)))
     \<noteq> DON_MAX_PERIOD bot_config"
  by code_simp

text \<open>
  C3, as the code has it. A cycle whose trade attempt succeeds clears the window and
  then appends the triggering price (line 307 is outside the branches): at the end of
  the cycle the window holds exactly that price, and its length is 1.
\<close>

theorem successful_trade_restarts_window:
  assumes "run_trading_strategy c cl mk asset st = (Inr (Traded sg True), st')"
    and "all_mids mk asset = Some p"
    and "0 < DON_MAX_PERIOD c"
  shows "sg \<noteq> NONE \<and> signal c (last_prices st) p = Inr sg \<and>
         last_prices st' = [p] \<and> length (last_prices st') = 1"
  using traded_cycle [OF assms(1,2)] restart_window(1) [of c p] assms(3)
  by simp

theorem successful_trade_restarts_window_witness:
  "run_trading_strategy bot_config
     (example_client 5 (filled_reply 89) resting_reply resting_reply)
     (example_market 89 89) ''BTC'' \<lparr>last_prices = example_window, orders_sent = []\<rparr> =
     (Inr (Traded SHORT True),
      \<lparr>last_prices = [89],
       orders_sent = [Market_open ''BTC'' False 2,
                      Order ''BTC'' True 2 89 True 89 True SL,
                      Order ''BTC'' True 2 87 True 87 True TP]\<rparr>) \<and>
   all_mids (example_market 89 89) ''BTC'' = Some 89 \<and>
   0 < DON_MAX_PERIOD bot_config \<and>
   SHORT \<noteq> NONE \<and>
   signal bot_config example_window 89 = Inr SHORT \<and>
   length [89 :: rat] = 1"
proof -
  have run: "run_trading_strategy bot_config
     (example_client 5 (filled_reply 89) resting_reply resting_reply)
     (example_market 89 89) ''BTC'' \<lparr>last_prices = example_window, orders_sent = []\<rparr> =
     (Inr (Traded SHORT True),
      \<lparr>last_prices = [89],
       orders_sent = [Market_open ''BTC'' False 2,
                      Order ''BTC'' True 2 89 True 89 True SL,
                      Order ''BTC'' True 2 87 True 87 True TP]\<rparr>)"
    by code_simp
  have mids: "all_mids (example_market 89 89) ''BTC'' = Some 89"
    by (simp add: example_market_def)
  have n: "0 < DON_MAX_PERIOD bot_config"
    by (simp add: bot_config_def)
  show ?thesis
    using run mids n successful_trade_restarts_window [OF run mids n]
    by simp
qed

text \<open>
  A full window, a breakout and a trade accepted in all three orders: after the cycle
  the window is not empty.
\<close>

theorem successful_trade_window_counterexample:
  "run_trading_strategy bot_config
     (example_client 5 (filled_reply 111) resting_reply resting_reply)
     (example_market 111 111) ''BTC'' \<lparr>last_prices = replicate 12 100, orders_sent = []\<rparr> =
     (Inr (Traded LONG True),
      \<lparr>last_prices = [111],
       orders_sent = [Market_open ''BTC'' True 2,
                      Order ''BTC'' False 2 109 True 109 True SL,
                      Order ''BTC'' False 2 113 True 113 True TP]\<rparr>) \<and>
   length (last_prices (snd (run_trading_strategy bot_config
     (example_client 5 (filled_reply 111) resting_reply resting_reply)
     (example_market 111 111) ''BTC'' \<lparr>last_prices = replicate 12 100, orders_sent = []\<rparr>)))
     \<noteq> 0"
  by code_simp

section \<open>The size sent to the exchange\<close>





end
